theory Spec2Isabelle
  imports
    Complex_Main
    "HOL-Library.Char_ord"
    "HOL-Library.List_Lexorder"
    "HOL-Library.Product_Lexorder"
    "HOL-Library.AList"
begin

section \<open>The CSV order pipeline of \<^verbatim>\<open>jugurtha_csv_pipeline.py\<close>\<close>

text \<open>
  The module has three stage functions and one function that runs them in sequence:
  \<^verbatim>\<open>extract_csv_orders\<close>, \<^verbatim>\<open>transform_orders_to_stats\<close>,
  \<^verbatim>\<open>load_stats_report\<close> and \<^verbatim>\<open>run_csv_pipeline\<close>.

  Conventions of the embedding.
  \<^item> A Python \<^verbatim>\<open>str\<close> is a \<^typ>\<open>string\<close>, the list of its UTF-8 bytes. Comparing
    two such lists byte by byte orders them as Python orders the strings by code point.
  \<^item> A Python \<^verbatim>\<open>float\<close> is a \<^typ>\<open>rat\<close>: every finite double is a rational number.
    Sums and quotients are exact here, so the rounding of binary floating point, the
    infinities and NaN are outside the model.
  \<^item> A \<^verbatim>\<open>Path\<close> is the list of its components.
  \<^item> A \<^verbatim>\<open>dict\<close> is an association list with distinct keys, in insertion order.
  \<^item> An exception is the \<open>Inl\<close> branch of a sum type.
\<close>

subsection \<open>Exceptions\<close>

text \<open>
  \<open>FileNotFound\<close> is the \<^verbatim>\<open>FileNotFoundError\<close> raised at line 48,
  \<open>MissingColumn\<close> the \<^verbatim>\<open>KeyError\<close> raised at line 61 with the message about the
  expected columns, \<open>KeyError k\<close> the \<^verbatim>\<open>KeyError\<close> that the dictionary subscript
  \<^verbatim>\<open>state_totals[state]\<close> of line 78 raises for a key \<open>k\<close> that is not in the
  dictionary, \<open>NoData\<close> the \<^verbatim>\<open>ValueError\<close> raised at line 94, and \<open>IOFailure\<close> an
  \<^verbatim>\<open>OSError\<close> from creating the directories or opening the report file.
\<close>

datatype error =
    FileNotFound
  | MissingColumn
  | KeyError string
  | NoData
  | IOFailure

subsection \<open>T: \<^verbatim>\<open>transform_orders_to_stats\<close>\<close>

text \<open>
  The returned dictionary has the four fixed keys \<^verbatim>\<open>count\<close>, \<^verbatim>\<open>min\<close>, \<^verbatim>\<open>max\<close>
  and \<^verbatim>\<open>mean\<close>; it is a record here. The count is stored as a float:
  \<^verbatim>\<open>float(len(amounts))\<close>.
\<close>

record stats =
  count_stat :: rat
  min_stat :: rat
  max_stat :: rat
  mean_stat :: rat

text \<open>
  The builtins \<^verbatim>\<open>min\<close> and \<^verbatim>\<open>max\<close> walk the list once and keep the best element
  seen so far. They are called on a non-empty list only, so the equation for the empty list
  is left out.
\<close>

fun py_min :: "rat list \<Rightarrow> rat" where
  "py_min (x # xs) = fold (\<lambda>item best. if item < best then item else best) xs x"

fun py_max :: "rat list \<Rightarrow> rat" where
  "py_max (x # xs) = fold (\<lambda>item best. if best < item then item else best) xs x"

text \<open>\<^verbatim>\<open>statistics.mean\<close> adds the data up exactly and divides by their number.\<close>

definition py_mean :: "rat list \<Rightarrow> rat" where
  "py_mean xs = sum_list xs / of_nat (length xs)"

definition transform_orders_to_stats :: "rat list \<Rightarrow> error + stats" where
  "transform_orders_to_stats amounts =
     (if amounts = [] then Inl NoData
      else Inr \<lparr> count_stat = of_nat (length amounts),
                 min_stat = py_min amounts,
                 max_stat = py_max amounts,
                 mean_stat = py_mean amounts \<rparr>)"

subsection \<open>Strings: \<^verbatim>\<open>str.strip\<close> and \<^verbatim>\<open>float\<close>\<close>

text \<open>
  \<^verbatim>\<open>str.strip()\<close> removes the white space at both ends. The ASCII characters that
  Python counts as white space are the bytes 9 to 13, 28 to 31 and 32; the white space
  beyond ASCII is not modelled.
\<close>

definition is_space :: "char \<Rightarrow> bool" where
  "is_space c = (let n = (of_char c :: nat) in (9 \<le> n \<and> n \<le> 13) \<or> (28 \<le> n \<and> n \<le> 32))"

definition strip :: "string \<Rightarrow> string" where
  "strip s = rev (dropWhile is_space (rev (dropWhile is_space s)))"

text \<open>
  \<^verbatim>\<open>float(text)\<close> on a stripped text: an optional sign, decimal digits with an optional
  point (at least one digit on one side of it), and an optional exponent. \<open>None\<close> is the
  \<^verbatim>\<open>ValueError\<close>. The value is the exact decimal. The spellings of infinity and NaN
  and the underscores that Python allows between digits are not modelled.
\<close>

definition is_digit :: "char \<Rightarrow> bool" where
  "is_digit c = (let n = (of_char c :: nat) in 48 \<le> n \<and> n \<le> 57)"

definition digits_value :: "string \<Rightarrow> nat" where
  "digits_value ds = foldl (\<lambda>n c. 10 * n + (of_char c - 48)) 0 ds"

definition split_sign :: "string \<Rightarrow> bool \<times> string" where
  "split_sign s =
     (case s of
        [] \<Rightarrow> (False, [])
      | c # r \<Rightarrow> if c = CHR ''-'' then (True, r) else if c = CHR ''+'' then (False, r) else (False, s))"

definition parse_exponent :: "string \<Rightarrow> int option" where
  "parse_exponent s =
     (case s of
        [] \<Rightarrow> Some 0
      | c # r \<Rightarrow>
          if c = CHR ''e'' \<or> c = CHR ''E'' then
            (let (neg, ds) = split_sign r in
             if ds \<noteq> [] \<and> list_all is_digit ds
             then Some (if neg then - int (digits_value ds) else int (digits_value ds))
             else None)
          else None)"

definition py_float :: "string \<Rightarrow> rat option" where
  "py_float s =
     (let (neg, body) = split_sign s;
          ip = takeWhile is_digit body;
          r1 = dropWhile is_digit body;
          has_point = (r1 \<noteq> [] \<and> hd r1 = CHR ''.'');
          fp = (if has_point then takeWhile is_digit (tl r1) else []);
          r2 = (if has_point then dropWhile is_digit (tl r1) else r1)
      in if ip = [] \<and> fp = [] then None
         else (case parse_exponent r2 of
                 None \<Rightarrow> None
               | Some e \<Rightarrow>
                   (let m = of_nat (digits_value (ip @ fp)) / 10 ^ length fp;
                        v = (if 0 \<le> e then m * 10 ^ nat e else m / 10 ^ nat (- e))
                    in Some (if neg then - v else v))))"

subsection \<open>The file system and the logger\<close>

text \<open>
  The functions read and write files and call the logger they are given. The state they
  act on is a record: the text of every file that exists, the paths at which creating the
  parent directories or opening the file for writing fails, and the messages logged so far.
  A path names a file or nothing: directories, a file that exists and cannot be read, and
  bytes that are not UTF-8 are not modelled.
\<close>

type_synonym path = "string list"

record world =
  files :: "path \<rightharpoonup> string"
  unwritable :: "path set"
  logged :: "string list"

subsection \<open>\<^verbatim>\<open>csv.DictReader\<close>\<close>

text \<open>
  The file is opened with \<^verbatim>\<open>newline=""\<close>, so a line ends at \<^verbatim>\<open>\n\<close>, \<^verbatim>\<open>\r\<close> or
  \<^verbatim>\<open>\r\n\<close>. \<open>split_lines\<close> carries whether the last character was \<^verbatim>\<open>\r\<close> and the
  current line, reversed.
\<close>

fun split_lines :: "bool \<Rightarrow> string \<Rightarrow> string \<Rightarrow> string list" where
  "split_lines after_cr cur [] = (if cur = [] then [] else [rev cur])"
| "split_lines after_cr cur (c # cs) =
     (if c = CHR 0x0A then
        (if after_cr then split_lines False [] cs else rev cur # split_lines False [] cs)
      else if c = CHR 0x0D then rev cur # split_lines True [] cs
      else split_lines False (c # cur) cs)"

fun split_on :: "char \<Rightarrow> string \<Rightarrow> string list" where
  "split_on d [] = [[]]"
| "split_on d (c # cs) =
     (let r = split_on d cs in if c = d then [] # r else (c # hd r) # tl r)"

text \<open>
  \<^verbatim>\<open>csv.reader\<close> with the default dialect, for text without the quote character
  \<^verbatim>\<open>"\<close>: a line is cut at every comma, and an empty line gives the empty record.
  Quoted fields are not modelled.
\<close>

definition csv_reader :: "string \<Rightarrow> string list list" where
  "csv_reader text = map (\<lambda>l. if l = [] then [] else split_on CHR '','' l) (split_lines False [] text)"

text \<open>
  \<^verbatim>\<open>DictReader.fieldnames\<close> is the first record, or \<^verbatim>\<open>None\<close> when there is none.
\<close>

definition fieldnames :: "string list list \<Rightarrow> string list option" where
  "fieldnames records = (case records of [] \<Rightarrow> None | h # _ \<Rightarrow> Some h)"

text \<open>
  The dictionary \<^verbatim>\<open>DictReader\<close> makes of a record: the field names zipped with the
  fields, and \<^verbatim>\<open>None\<close> for every field name beyond the end of a short record. The
  surplus fields of a long record go under the key \<^verbatim>\<open>None\<close>, which no column name
  equals. A later pair overrides an earlier one with the same key, so a lookup reads the
  pairs from the back.
\<close>

definition dict_row :: "string list \<Rightarrow> string list \<Rightarrow> (string \<times> string option) list" where
  "dict_row names cells = zip names (map Some cells @ replicate (length names - length cells) None)"

text \<open>\<^verbatim>\<open>(row.get(col) or "")\<close>\<close>

definition get_or_empty :: "(string \<times> string option) list \<Rightarrow> string \<Rightarrow> string" where
  "get_or_empty row col = (case map_of (rev row) col of Some (Some v) \<Rightarrow> v | _ \<Rightarrow> [])"

subsection \<open>E: \<^verbatim>\<open>extract_csv_orders\<close>\<close>

text \<open>
  The loop over the rows (lines 65 to 78), with the two accumulators passed along.
  \<^verbatim>\<open>DictReader\<close> passes over empty records. The subscript \<^verbatim>\<open>state_totals[state]\<close> on
  the right of line 78 raises \<^verbatim>\<open>KeyError\<close> when the state is not yet a key.
\<close>

fun extract_rows ::
  "string list \<Rightarrow> string \<Rightarrow> string \<Rightarrow> string list list \<Rightarrow> rat list \<Rightarrow> (string \<times> rat) list
     \<Rightarrow> error + (rat list \<times> (string \<times> rat) list)" where
  "extract_rows names amount_col state_col [] amounts state_totals = Inr (amounts, state_totals)"
| "extract_rows names amount_col state_col (cells # rest) amounts state_totals =
     (if cells = [] then extract_rows names amount_col state_col rest amounts state_totals
      else
        (let row = dict_row names cells;
             raw_amount = strip (get_or_empty row amount_col);
             state = strip (get_or_empty row state_col)
         in if raw_amount = [] \<or> state = []
            then extract_rows names amount_col state_col rest amounts state_totals
            else (case py_float raw_amount of
                    None \<Rightarrow> extract_rows names amount_col state_col rest amounts state_totals
                  | Some amount \<Rightarrow>
                      (case map_of state_totals state of
                         None \<Rightarrow> Inl (KeyError state)
                       | Some old_total \<Rightarrow>
                           extract_rows names amount_col state_col rest (amounts @ [amount])
                             (AList.update state (old_total + amount) state_totals)))))"

text \<open>
  The test of line 59 is \<^verbatim>\<open>(amount_col and state_col) not in reader.fieldnames\<close>.
  Python's \<^verbatim>\<open>and\<close> gives its first operand when that is the empty string and its second
  operand otherwise, and the result is the one name looked for in the header.
\<close>

definition py_and :: "string \<Rightarrow> string \<Rightarrow> string" where
  "py_and a b = (if a = [] then a else b)"

definition extract_csv_orders ::
  "world \<Rightarrow> path \<Rightarrow> string \<Rightarrow> string \<Rightarrow> error + (rat list \<times> (string \<times> rat) list)" where
  "extract_csv_orders w file_path amount_col state_col =
     (case files w file_path of
        None \<Rightarrow> Inl FileNotFound
      | Some text \<Rightarrow>
          (case fieldnames (csv_reader text) of
             None \<Rightarrow> Inl MissingColumn
           | Some names \<Rightarrow>
               if py_and amount_col state_col \<notin> set names then Inl MissingColumn
               else extract_rows names amount_col state_col (tl (csv_reader text)) [] []))"

subsection \<open>L: \<^verbatim>\<open>load_stats_report\<close>\<close>

text \<open>Decimal digits of a natural number and of an integer, as \<^verbatim>\<open>str\<close> prints them.\<close>

fun show_nat :: "nat \<Rightarrow> string" where
  "show_nat n =
     (if n < 10 then [''0123456789'' ! n]
      else show_nat (n div 10) @ [''0123456789'' ! (n mod 10)])"

declare show_nat.simps [simp del]

definition show_int :: "int \<Rightarrow> string" where
  "show_int i = (if i < 0 then ''-'' @ show_nat (nat (- i)) else show_nat (nat i))"

text \<open>\<^verbatim>\<open>int(x)\<close> of a float cuts the fraction off, towards zero.\<close>

definition py_int :: "rat \<Rightarrow> int" where
  "py_int x = (if 0 \<le> x then \<lfloor>x\<rfloor> else \<lceil>x\<rceil>)"

text \<open>
  The format \<^verbatim>\<open>.2f\<close> rounds the exact value to the nearest hundredth, a tie to the
  even neighbour, and prints the sign of a negative value also when the digits are all zero.
\<close>

definition round_half_even :: "rat \<Rightarrow> int" where
  "round_half_even x =
     (let f = \<lfloor>x\<rfloor>; r = x - of_int f
      in if r < 1 / 2 then f else if 1 / 2 < r then f + 1 else if even f then f else f + 1)"

definition format_2f :: "rat \<Rightarrow> string" where
  "format_2f x =
     (let n = nat (round_half_even (\<bar>x\<bar> * 100))
      in (if x < 0 then ''-'' else []) @ show_nat (n div 100) @ ''.''
           @ show_nat (n mod 100 div 10) @ show_nat (n mod 10))"

text \<open>\<^verbatim>\<open>f.write(s)\<close> on the text written so far.\<close>

definition f_write :: "string \<Rightarrow> string \<Rightarrow> string" where
  "f_write s f = f @ s"

text \<open>
  \<^verbatim>\<open>sorted(state_totals.items())\<close> sorts the pairs of key and total, and Python compares
  tuples lexicographically: by key, then by total.
\<close>

definition py_sorted :: "(string \<times> rat) list \<Rightarrow> (string \<times> rat) list" where
  "py_sorted items = sort items"

text \<open>
  Opening with mode \<^verbatim>\<open>"w"\<close> starts from the empty file. A failure of
  \<^verbatim>\<open>mkdir\<close> or \<^verbatim>\<open>open\<close> leaves the files as they were; a failure in the middle of
  the writes is not modelled.
\<close>

definition load_stats_report :: "stats \<Rightarrow> (string \<times> rat) list \<Rightarrow> path \<Rightarrow> world \<Rightarrow> error + world" where
  "load_stats_report st state_totals out_path w =
     (if out_path \<in> unwritable w then Inl IOFailure
      else
        (let f = [];
             f = f_write (''Customer Orders Statistics'' @ [CHR 0x0A]) f;
             f = f_write (replicate 30 CHR ''-'' @ [CHR 0x0A]) f;
             f = f_write (''Count: '' @ show_int (py_int (count_stat st)) @ [CHR 0x0A]) f;
             f = f_write (''Minimum: '' @ format_2f (min_stat st) @ [CHR 0x0A]) f;
             f = f_write (''Maximum: '' @ format_2f (max_stat st) @ [CHR 0x0A]) f;
             f = f_write (''Mean: '' @ format_2f (mean_stat st) @ [CHR 0x0A]) f;
             f = f_write (''Total Order Amount by State'' @ [CHR 0x0A]) f;
             f = f_write (replicate 30 CHR ''-'' @ [CHR 0x0A]) f;
             f = fold (\<lambda>(state, total). f_write (state @ '': $'' @ format_2f total @ [CHR 0x0A]))
                   (py_sorted state_totals) f
         in Inr (w\<lparr>files := (files w)(out_path \<mapsto> f)\<rparr>)))"

subsection \<open>\<^verbatim>\<open>run_csv_pipeline\<close>\<close>

definition logger_info :: "string \<Rightarrow> world \<Rightarrow> world" where
  "logger_info msg w = w\<lparr>logged := logged w @ [msg]\<rparr>"

fun path_str :: "path \<Rightarrow> string" where
  "path_str [] = ''.''"
| "path_str [c] = c"
| "path_str (c # cs) = c @ ''/'' @ path_str cs"

definition input_file :: "path \<Rightarrow> path" where
  "input_file raw_dir = raw_dir @ [''customers_orders.csv'']"

definition output_file :: "path \<Rightarrow> path" where
  "output_file processed_dir = processed_dir @ [''csv_customers_orders_stats.txt'']"

text \<open>
  The result is the exception that ends the run, or \<open>Inr ()\<close> for a normal return, and
  the world as the run leaves it.
\<close>

definition run_csv_pipeline :: "path \<Rightarrow> path \<Rightarrow> world \<Rightarrow> (error + unit) \<times> world" where
  "run_csv_pipeline raw_dir processed_dir w0 =
     (let w1 = logger_info ''CSV: START'' w0
      in case extract_csv_orders w1 (input_file raw_dir) ''AmountSpentUSD'' ''State'' of
           Inl e \<Rightarrow> (Inl e, w1)
         | Inr (amounts, state_totals) \<Rightarrow>
             (case transform_orders_to_stats amounts of
                Inl e \<Rightarrow> (Inl e, w1)
              | Inr st \<Rightarrow>
                  (case load_stats_report st state_totals (output_file processed_dir) w1 of
                     Inl e \<Rightarrow> (Inl e, w1)
                   | Inr w2 \<Rightarrow>
                       (Inr (),
                        logger_info ''CSV: END''
                          (logger_info (''CSV: wrote '' @ path_str (output_file processed_dir)) w2)))))"

subsection \<open>The report as the specification words it\<close>

text \<open>
  The text of section 4.3 of the specification: the title, a line of 30 dashes, the count
  as an integer, minimum, maximum and mean with two decimals, the second title, the dashes
  again, and one line per category, sorted by category label ascending.
\<close>

definition unlines :: "string list \<Rightarrow> string" where
  "unlines ls = concat (map (\<lambda>l. l @ [CHR 0x0A]) ls)"

definition category_line :: "string \<times> rat \<Rightarrow> string" where
  "category_line item = fst item @ '': $'' @ format_2f (snd item)"

definition spec_report :: "stats \<Rightarrow> (string \<times> rat) list \<Rightarrow> string" where
  "spec_report st totals =
     unlines
       ([''Customer Orders Statistics'',
         replicate 30 CHR ''-'',
         ''Count: '' @ show_int (py_int (count_stat st)),
         ''Minimum: '' @ format_2f (min_stat st),
         ''Maximum: '' @ format_2f (max_stat st),
         ''Mean: '' @ format_2f (mean_stat st),
         ''Total Order Amount by State'',
         replicate 30 CHR ''-'']
        @ map category_line (sort_key fst totals))"

subsection \<open>Valid rows, and the worlds of the examples\<close>

text \<open>
  A valid data row, in the words of the specification: both fields, with the white space
  at their ends removed, are non-empty, and the amount text parses as a number.
\<close>

definition valid_row :: "string list \<Rightarrow> string \<Rightarrow> string \<Rightarrow> string list \<Rightarrow> bool" where
  "valid_row names amount_col state_col cells =
     (let row = dict_row names cells
      in strip (get_or_empty row amount_col) \<noteq> []
         \<and> strip (get_or_empty row state_col) \<noteq> []
         \<and> py_float (strip (get_or_empty row amount_col)) \<noteq> None)"

text \<open>A world with one file, every path writable and nothing logged.\<close>

definition one_file :: "path \<Rightarrow> string \<Rightarrow> world" where
  "one_file p text = \<lparr> files = [p \<mapsto> text], unwritable = {}, logged = [] \<rparr>"

text \<open>The input of the end-to-end scenario of the specification.\<close>

definition scenario_csv :: string where
  "scenario_csv =
     ''AmountSpentUSD,State\<newline>100.00,CA\<newline>50.5,NY\<newline>bad,CA\<newline>,TX\<newline>25,CA\<newline>''"

subsection \<open>What a run produces\<close>

text \<open>
  The report of a run: the text of the output file after a run that returned normally,
  and nothing for a run that ended in an exception.
\<close>

definition produced_report :: "path \<Rightarrow> (error + unit) \<times> world \<Rightarrow> string option" where
  "produced_report processed_dir outcome =
     (case fst outcome of
        Inl e \<Rightarrow> None
      | Inr u \<Rightarrow> files (snd outcome) (output_file processed_dir))"

text \<open>The statistics and the totals of the reporter's example.\<close>

definition example_stats :: stats where
  "example_stats = \<lparr> count_stat = 2, min_stat = 21 / 2, max_stat = 30, mean_stat = 81 / 4 \<rparr>"

definition example_totals :: "(string \<times> rat) list" where
  "example_totals = [(''NY'', 30), (''CA'', 21 / 2)]"


section \<open>Properties of the aggregator\<close>








text \<open>
  Claim C4. \<^verbatim>\<open>transform_orders_to_stats\<close> raises the \<^verbatim>\<open>ValueError\<close> for missing
  data exactly when the list of amounts is empty, and it raises nothing else: for the empty
  list there is no statistics record, with zeros or otherwise, and for every other list there
  is one.
\<close>

theorem transform_fails_iff_empty:
  "(transform_orders_to_stats amounts = Inl NoData \<longleftrightarrow> amounts = [])
   \<and> (isl (transform_orders_to_stats amounts) \<longleftrightarrow> amounts = [])"
  by (simp add: transform_orders_to_stats_def)

theorem transform_fails_iff_empty_witness:
  "transform_orders_to_stats [] = Inl NoData \<and> \<not> isl (transform_orders_to_stats [5])"
  using transform_fails_iff_empty [of "[]"] transform_fails_iff_empty [of "[5]"] by simp



text \<open>The other example of the specification: a single amount is its own minimum, maximum and mean.\<close>

lemma transform_single:
  "transform_orders_to_stats [5] =
     Inr \<lparr> count_stat = 1, min_stat = 5, max_stat = 5, mean_stat = 5 \<rparr>"
  by (simp add: transform_orders_to_stats_def py_mean_def)



section \<open>Properties of the extractor\<close>

lemma map_of_all_None:
  "map_of (rev (zip names (replicate n (None :: string option)))) (col :: string) \<noteq> Some (Some v)"
proof
  assume "map_of (rev (zip names (replicate n (None :: string option)))) col = Some (Some v)"
  then have "(col, Some v) \<in> set (rev (zip names (replicate n None)))"
    by (rule map_of_SomeD)
  then have "Some v \<in> set (replicate n (None :: string option))"
    by (auto dest: set_zip_rightD)
  then show False by simp
qed

lemma get_or_empty_blank: "get_or_empty (dict_row names []) col = []"
  by (simp add: get_or_empty_def dict_row_def map_of_all_None split: option.splits)

lemma blank_not_valid: "\<not> valid_row names amount_col state_col []"
  by (simp add: valid_row_def get_or_empty_blank strip_def)

text \<open>
  The loop started with an empty dictionary: it raises at the first valid row, with the
  state of that row as the missing key, and returns only when no row is valid.
\<close>

lemma extract_rows_no_totals:
  "extract_rows names amount_col state_col rows amounts [] =
     (case filter (valid_row names amount_col state_col) rows of
        [] \<Rightarrow> Inr (amounts, [])
      | cells # _ \<Rightarrow> Inl (KeyError (strip (get_or_empty (dict_row names cells) state_col))))"
proof (induction rows)
  case Nil
  show ?case by simp
next
  case (Cons cells rest)
  show ?case
  proof (cases "cells = []")
    case True
    with Cons show ?thesis by (simp add: blank_not_valid)
  next
    case False
    show ?thesis
    proof (cases "valid_row names amount_col state_col cells")
      case True
      with False show ?thesis by (auto simp: valid_row_def Let_def)
    next
      case notvalid: False
      with False Cons show ?thesis
        by (auto simp: valid_row_def Let_def split: option.splits)
    qed
  qed
qed

lemmas csv_eval =
  extract_csv_orders_def one_file_def scenario_csv_def csv_reader_def fieldnames_def
  py_and_def dict_row_def get_or_empty_def strip_def is_space_def py_float_def split_sign_def
  is_digit_def parse_exponent_def digits_value_def valid_row_def

text \<open>
  For a file that exists and passes the header test, the result of the extractor is decided
  by the first valid row alone.
\<close>

lemma extract_csv_orders_first_valid_row:
  assumes "files w p = Some text"
    and "fieldnames (csv_reader text) = Some names"
    and "py_and amount_col state_col \<in> set names"
  shows "extract_csv_orders w p amount_col state_col =
           (case filter (valid_row names amount_col state_col) (tl (csv_reader text)) of
              [] \<Rightarrow> Inr ([], [])
            | cells # _ \<Rightarrow> Inl (KeyError (strip (get_or_empty (dict_row names cells) state_col))))"
  using assms by (simp add: extract_csv_orders_def extract_rows_no_totals)

text \<open>Whenever the extractor returns, both the amounts and the totals are empty.\<close>

lemma extract_csv_orders_returns_nothing:
  assumes "extract_csv_orders w p amount_col state_col = Inr (amounts, state_totals)"
  shows "amounts = [] \<and> state_totals = []"
  using assms
  by (auto simp: extract_csv_orders_def extract_rows_no_totals
           split: option.splits if_splits list.splits)

text \<open>
  The extractor raises the exception for a missing column exactly when the file exists
  and either has no first record or the one name that line 59 looks for is not in it.
\<close>

lemma extract_csv_orders_MissingColumn_iff:
  "extract_csv_orders w p amount_col state_col = Inl MissingColumn \<longleftrightarrow>
     (\<exists>text. files w p = Some text \<and>
        (case fieldnames (csv_reader text) of
           None \<Rightarrow> True
         | Some names \<Rightarrow> py_and amount_col state_col \<notin> set names))"
  by (auto simp: extract_csv_orders_def extract_rows_no_totals split: option.splits list.splits)

text \<open>
  Claim C1 says that for a valid data row the extractor appends the amount, adds it to the
  total of the state, with a new entry starting at zero for a state not seen before, and
  returns normally. The code reads \<^verbatim>\<open>state_totals[state]\<close> before it has ever stored
  that key. On the file with the header and the one row \<^verbatim>\<open>100.00,CA\<close>, a valid row,
  the extractor raises \<^verbatim>\<open>KeyError('CA')\<close>.
\<close>

theorem extract_valid_row_raises_KeyError:
  "csv_reader ''AmountSpentUSD,State\<newline>100.00,CA\<newline>''
     = [[''AmountSpentUSD'', ''State''], [''100.00'', ''CA'']]
   \<and> valid_row [''AmountSpentUSD'', ''State''] ''AmountSpentUSD'' ''State'' [''100.00'', ''CA'']
   \<and> extract_csv_orders
         (one_file [''raw'', ''customers_orders.csv''] ''AmountSpentUSD,State\<newline>100.00,CA\<newline>'')
         [''raw'', ''customers_orders.csv''] ''AmountSpentUSD'' ''State''
       = Inl (KeyError ''CA'')"
  by (simp add: csv_eval del: not_None_eq)

text \<open>
  Claim C2 says that the extractor raises the exception for a missing column exactly when
  there is no header or the header lacks one of the two column names, and in particular
  when the header has the state column and lacks the amount column. The test of line 59
  looks for the state column alone. On a file whose header is \<^verbatim>\<open>State,Name\<close> the
  extractor, asked for the columns \<^verbatim>\<open>AmountSpentUSD\<close> and \<^verbatim>\<open>State\<close>, raises nothing
  and returns an empty list and an empty dictionary.
\<close>

theorem extract_accepts_header_without_amount:
  "fieldnames (csv_reader ''State,Name\<newline>CA,Ann\<newline>'') = Some [''State'', ''Name'']
   \<and> ''AmountSpentUSD'' \<notin> set [''State'', ''Name'']
   \<and> extract_csv_orders
         (one_file [''raw'', ''customers_orders.csv''] ''State,Name\<newline>CA,Ann\<newline>'')
         [''raw'', ''customers_orders.csv''] ''AmountSpentUSD'' ''State''
       = Inr ([], [])"
  by (simp add: csv_eval del: not_None_eq)

text \<open>
  Claim C3 says that for a file with both columns in the header and at least one valid
  row the extractor returns a list with one amount per valid row. The input of the
  end-to-end scenario of the specification has three valid rows, and on it the extractor
  raises \<^verbatim>\<open>KeyError('CA')\<close> at the first of them.
\<close>

theorem extract_scenario_raises_KeyError:
  "fieldnames (csv_reader scenario_csv) = Some [''AmountSpentUSD'', ''State'']
   \<and> length (filter (valid_row [''AmountSpentUSD'', ''State''] ''AmountSpentUSD'' ''State'')
               (tl (csv_reader scenario_csv))) = 3
   \<and> extract_csv_orders (one_file [''raw'', ''customers_orders.csv''] scenario_csv)
         [''raw'', ''customers_orders.csv''] ''AmountSpentUSD'' ''State''
       = Inl (KeyError ''CA'')"
  by (simp add: csv_eval del: not_None_eq)

text \<open>
  Claim C6. When no file exists at the path, the extractor raises
  \<^verbatim>\<open>FileNotFoundError\<close>, whatever the column names; nothing has been read by then.
\<close>

theorem extract_missing_file:
  assumes "files w file_path = None"
  shows "extract_csv_orders w file_path amount_col state_col = Inl FileNotFound"
  using assms by (simp add: extract_csv_orders_def)

theorem extract_missing_file_witness:
  "files (one_file [''raw'', ''customers_orders.csv''] scenario_csv) [''raw'', ''orders.csv''] = None
   \<and> extract_csv_orders (one_file [''raw'', ''customers_orders.csv''] scenario_csv)
         [''raw'', ''orders.csv''] ''AmountSpentUSD'' ''State''
       = Inl FileNotFound"
  using extract_missing_file
    [of "one_file [''raw'', ''customers_orders.csv''] scenario_csv" "[''raw'', ''orders.csv'']"
        "''AmountSpentUSD''" "''State''"]
  by (simp add: one_file_def)

section \<open>Properties of the reporter\<close>

lemma floor_numeral_quotient: "\<lfloor>numeral a / numeral b :: rat\<rfloor> = numeral a div numeral b"
  using floor_divide_of_int_eq [of "numeral a" "numeral b", where ?'a = rat] by simp

lemma dashes: "replicate 30 CHR ''-'' = ''------------------------------''"
  by (simp add: eval_nat_numeral)

lemmas format_eval =
  dashes format_2f_def round_half_even_def show_nat.simps floor_numeral_quotient
  show_int_def py_int_def less_eq_char_def less_char_def

text \<open>The loop of line 130 appends one line per item, in the order of the list it walks.\<close>

lemma fold_f_write:
  "fold (\<lambda>(state, total). f_write (state @ '': $'' @ format_2f total @ [CHR 0x0A])) items f
     = f @ concat (map (\<lambda>l. l @ [CHR 0x0A]) (map category_line items))"
  by (induction items arbitrary: f) (auto simp: f_write_def category_line_def)

text \<open>Pairs in ascending order have their first components in ascending order.\<close>

lemma sorted_pairs_sorted_keys:
  fixes xs :: "(string \<times> rat) list"
  assumes "sorted xs"
  shows "sorted (map fst xs)"
proof -
  have "sorted_wrt (\<lambda>x y. fst x \<le> fst y) xs"
    using assms by (rule sorted_wrt_mono_rel [rotated]) (auto simp: less_eq_prod_def)
  then show ?thesis by (simp add: sorted_map)
qed

text \<open>
  The keys of a dictionary are distinct, so sorting its items as pairs is sorting them by
  key.
\<close>

lemma py_sorted_by_label:
  assumes "distinct (map fst state_totals)"
  shows "py_sorted state_totals = sort_key fst state_totals"
proof (rule map_sorted_distinct_set_unique [where f = fst])
  have inj: "inj_on fst (set state_totals)" and d: "distinct state_totals"
    using assms by (simp_all add: distinct_map)
  show "inj_on fst (set (py_sorted state_totals) \<union> set (sort_key fst state_totals))"
    using inj by (simp add: py_sorted_def)
  show "sorted (map fst (py_sorted state_totals))"
    unfolding py_sorted_def by (rule sorted_pairs_sorted_keys) simp
  show "distinct (map fst (py_sorted state_totals))"
    using inj d by (simp add: distinct_map py_sorted_def)
  show "sorted (map fst (sort_key fst state_totals))" by simp
  show "distinct (map fst (sort_key fst state_totals))"
    using inj d by (simp add: distinct_map)
  show "set (py_sorted state_totals) = set (sort_key fst state_totals)"
    by (simp add: py_sorted_def)
qed

lemma load_stats_report_writes:
  "out_path \<notin> unwritable w \<Longrightarrow>
   load_stats_report st state_totals out_path w =
     Inr (w\<lparr>files := (files w)(out_path \<mapsto>
       unlines ([''Customer Orders Statistics'',
         replicate 30 CHR ''-'',
         ''Count: '' @ show_int (py_int (count_stat st)),
         ''Minimum: '' @ format_2f (min_stat st),
         ''Maximum: '' @ format_2f (max_stat st),
         ''Mean: '' @ format_2f (mean_stat st),
         ''Total Order Amount by State'',
         replicate 30 CHR ''-'']
        @ map category_line (py_sorted state_totals)))\<rparr>)"
  unfolding load_stats_report_def Let_def fold_f_write
  by (simp add: unlines_def f_write_def)

lemma load_stats_report_unwritable:
  "out_path \<in> unwritable w \<Longrightarrow> load_stats_report st state_totals out_path w = Inl IOFailure"
  by (simp add: load_stats_report_def)

text \<open>
  Claim C7. For a dictionary of totals (its keys are distinct) and an output path that can
  be written, \<^verbatim>\<open>load_stats_report\<close> leaves at the path exactly the report of the
  specification: the title, 30 dashes, the count as an integer, minimum, maximum and mean
  with two decimals, the second title, 30 dashes, and one line
  \<^verbatim>\<open><state>: $<total with two decimals>\<close> per category. The categories are those of the
  dictionary, each once, and their labels ascend strictly in the lexicographic order of
  strings. For the totals NY 30 and CA 10.5 the witness computes the text: the line of CA
  comes before the line of NY.
\<close>

theorem load_stats_report_text:
  assumes "distinct (map fst state_totals)" and "out_path \<notin> unwritable w"
  shows "load_stats_report st state_totals out_path w
           = Inr (w\<lparr>files := (files w)(out_path \<mapsto> spec_report st state_totals)\<rparr>)
         \<and> sorted_wrt (<) (map fst (sort_key fst state_totals))
         \<and> set (sort_key fst state_totals) = set state_totals
         \<and> length (sort_key fst state_totals) = length state_totals"
proof -
  have "distinct (map fst (sort_key fst state_totals))"
    using assms(1) by (simp add: distinct_map)
  then have "sorted_wrt (<) (map fst (sort_key fst state_totals))"
    by (simp add: strict_sorted_iff)
  moreover have "load_stats_report st state_totals out_path w
           = Inr (w\<lparr>files := (files w)(out_path \<mapsto> spec_report st state_totals)\<rparr>)"
    using assms by (simp add: load_stats_report_writes spec_report_def py_sorted_by_label)
  ultimately show ?thesis by simp
qed

theorem load_stats_report_text_witness:
  "distinct (map fst example_totals)
   \<and> [''processed'', ''csv_customers_orders_stats.txt'']
       \<notin> unwritable (one_file [''raw'', ''customers_orders.csv''] scenario_csv)
   \<and> (\<exists>w'. load_stats_report example_stats example_totals
               [''processed'', ''csv_customers_orders_stats.txt'']
               (one_file [''raw'', ''customers_orders.csv''] scenario_csv) = Inr w'
          \<and> files w' [''processed'', ''csv_customers_orders_stats.txt''] = Some
    ''Customer Orders Statistics\<newline>------------------------------\<newline>Count: 2\<newline>Minimum: 10.50\<newline>Maximum: 30.00\<newline>Mean: 20.25\<newline>Total Order Amount by State\<newline>------------------------------\<newline>CA: $10.50\<newline>NY: $30.00\<newline>'')"
  using load_stats_report_text
    [of example_totals "[''processed'', ''csv_customers_orders_stats.txt'']"
        "one_file [''raw'', ''customers_orders.csv''] scenario_csv" example_stats]
  by (simp add: example_totals_def example_stats_def one_file_def spec_report_def unlines_def
      category_line_def format_eval)

section \<open>Properties of the whole run\<close>

lemma extract_csv_orders_reads_one_file:
  "files w1 p = files w2 p \<Longrightarrow>
   extract_csv_orders w1 p amount_col state_col = extract_csv_orders w2 p amount_col state_col"
  by (simp add: extract_csv_orders_def)

lemma files_logger_info: "files (logger_info msg w) = files w"
  by (simp add: logger_info_def)

lemma unwritable_logger_info: "unwritable (logger_info msg w) = unwritable w"
  by (simp add: logger_info_def)

lemma extract_csv_orders_logger_info:
  "extract_csv_orders (logger_info msg w) p amount_col state_col = extract_csv_orders w p amount_col state_col"
  by (rule extract_csv_orders_reads_one_file) (simp add: files_logger_info)

lemma load_stats_report_error: "load_stats_report st state_totals out_path w = Inl e \<Longrightarrow> e = IOFailure"
  by (simp add: load_stats_report_def Let_def split: if_splits)

lemma run_extract_fails:
  assumes "extract_csv_orders w (input_file raw_dir) ''AmountSpentUSD'' ''State'' = Inl e"
  shows "run_csv_pipeline raw_dir processed_dir w = (Inl e, logger_info ''CSV: START'' w)"
  using assms by (simp add: run_csv_pipeline_def Let_def extract_csv_orders_logger_info)

lemma run_transform_fails:
  assumes "extract_csv_orders w (input_file raw_dir) ''AmountSpentUSD'' ''State'' = Inr (amounts, state_totals)"
    and "transform_orders_to_stats amounts = Inl e"
  shows "run_csv_pipeline raw_dir processed_dir w = (Inl e, logger_info ''CSV: START'' w)"
  using assms by (simp add: run_csv_pipeline_def Let_def extract_csv_orders_logger_info)

text \<open>
  No run returns normally: either the extractor raises, or it returns an empty list of
  amounts and the aggregator raises. The world is left as it was, but for the first log
  message.
\<close>

lemma run_csv_pipeline_always_raises:
  "\<exists>e. run_csv_pipeline raw_dir processed_dir w = (Inl e, logger_info ''CSV: START'' w)"
proof (cases "extract_csv_orders w (input_file raw_dir) ''AmountSpentUSD'' ''State''")
  case (Inl e)
  then show ?thesis by (auto dest: run_extract_fails)
next
  case (Inr r)
  obtain amounts state_totals where r: "r = (amounts, state_totals)" by (cases r)
  with Inr have "amounts = []" by (auto dest: extract_csv_orders_returns_nothing)
  then have "transform_orders_to_stats amounts = Inl NoData"
    by (simp add: transform_orders_to_stats_def)
  with Inr r show ?thesis by (auto dest: run_transform_fails)
qed

text \<open>
  The end-to-end scenario of the specification expects a report with the lines
  \<^verbatim>\<open>CA: $125.00\<close> and \<^verbatim>\<open>NY: $50.50\<close>. The run raises \<^verbatim>\<open>KeyError('CA')\<close> and
  writes nothing.
\<close>

lemma run_scenario_raises:
  "run_csv_pipeline [''raw''] [''processed''] (one_file [''raw'', ''customers_orders.csv''] scenario_csv)
     = (Inl (KeyError ''CA''),
        logger_info ''CSV: START'' (one_file [''raw'', ''customers_orders.csv''] scenario_csv))"
proof -
  have "extract_csv_orders (one_file [''raw'', ''customers_orders.csv''] scenario_csv)
          (input_file [''raw'']) ''AmountSpentUSD'' ''State'' = Inl (KeyError ''CA'')"
    by (simp add: csv_eval input_file_def del: not_None_eq)
  then show ?thesis by (rule run_extract_fails)
qed



text \<open>Whatever exception ends a run, the files are as they were before it.\<close>

lemma run_failure_keeps_files:
  assumes "fst (run_csv_pipeline raw_dir processed_dir w) = Inl e"
  shows "files (snd (run_csv_pipeline raw_dir processed_dir w)) = files w"
  using assms
  by (auto simp: run_csv_pipeline_def Let_def files_logger_info split: sum.splits prod.splits)

text \<open>The two fixed file names differ, so the input path is never the output path.\<close>

lemma input_file_not_output_file: "input_file raw_dir \<noteq> output_file processed_dir"
proof
  assume "input_file raw_dir = output_file processed_dir"
  then have "last (input_file raw_dir) = last (output_file processed_dir)" by simp
  then show False by (simp add: input_file_def output_file_def)
qed

text \<open>
  The run after two stages that returned: a failure to write ends it with that failure,
  and otherwise the report is at the output path. These two lemmas follow the text of
  \<^verbatim>\<open>run_csv_pipeline\<close> alone; by \<open>run_csv_pipeline_always_raises\<close> no world meets
  their first two premises together.
\<close>

lemma run_load_fails:
  assumes "extract_csv_orders w (input_file raw_dir) ''AmountSpentUSD'' ''State'' = Inr (amounts, state_totals)"
    and "transform_orders_to_stats amounts = Inr st"
    and "output_file processed_dir \<in> unwritable w"
  shows "run_csv_pipeline raw_dir processed_dir w = (Inl IOFailure, logger_info ''CSV: START'' w)"
  using assms
  by (simp add: run_csv_pipeline_def Let_def extract_csv_orders_logger_info
      load_stats_report_unwritable unwritable_logger_info)

lemma run_writes_report:
  assumes "extract_csv_orders w (input_file raw_dir) ''AmountSpentUSD'' ''State'' = Inr (amounts, state_totals)"
    and "transform_orders_to_stats amounts = Inr st"
    and "output_file processed_dir \<notin> unwritable w"
  shows "\<exists>w'. run_csv_pipeline raw_dir processed_dir w = (Inr (), w')
           \<and> files w' = (files w)(output_file processed_dir \<mapsto>
                unlines ([''Customer Orders Statistics'',
                  replicate 30 CHR ''-'',
                  ''Count: '' @ show_int (py_int (count_stat st)),
                  ''Minimum: '' @ format_2f (min_stat st),
                  ''Maximum: '' @ format_2f (max_stat st),
                  ''Mean: '' @ format_2f (mean_stat st),
                  ''Total Order Amount by State'',
                  replicate 30 CHR ''-'']
                 @ map category_line (py_sorted state_totals)))"
  using assms
  by (simp add: run_csv_pipeline_def Let_def extract_csv_orders_logger_info
      load_stats_report_writes unwritable_logger_info files_logger_info)

text \<open>
  The outcome of a run and the report it produces are decided by the text of the input
  file and by whether the output path can be written.
\<close>

lemma run_depends_on_input_file:
  assumes "files w1 (input_file raw_dir) = files w2 (input_file raw_dir)"
    and "output_file processed_dir \<in> unwritable w1 \<longleftrightarrow> output_file processed_dir \<in> unwritable w2"
  shows "fst (run_csv_pipeline raw_dir processed_dir w1) = fst (run_csv_pipeline raw_dir processed_dir w2)
       \<and> produced_report processed_dir (run_csv_pipeline raw_dir processed_dir w1)
           = produced_report processed_dir (run_csv_pipeline raw_dir processed_dir w2)"
proof -
  let ?x1 = "extract_csv_orders w1 (input_file raw_dir) ''AmountSpentUSD'' ''State''"
  let ?x2 = "extract_csv_orders w2 (input_file raw_dir) ''AmountSpentUSD'' ''State''"
  have x: "?x1 = ?x2" using assms(1) by (rule extract_csv_orders_reads_one_file)
  show ?thesis
  proof (cases ?x1)
    case (Inl e)
    then have x2: "?x2 = Inl e" using x by simp
    show ?thesis
      by (simp add: run_extract_fails [OF Inl] run_extract_fails [OF x2] produced_report_def)
  next
    case (Inr r)
    obtain amounts state_totals where r: "r = (amounts, state_totals)" by (cases r)
    have x1: "?x1 = Inr (amounts, state_totals)" using Inr r by simp
    then have x2: "?x2 = Inr (amounts, state_totals)" using x by simp
    show ?thesis
    proof (cases "transform_orders_to_stats amounts")
      case (Inl e)
      show ?thesis
        by (simp add: run_transform_fails [OF x1 Inl] run_transform_fails [OF x2 Inl]
            produced_report_def)
    next
      case st: (Inr st)
      show ?thesis
      proof (cases "output_file processed_dir \<in> unwritable w1")
        case True
        then have u2: "output_file processed_dir \<in> unwritable w2" using assms(2) by simp
        show ?thesis
          by (simp add: run_load_fails [OF x1 st True] run_load_fails [OF x2 st u2]
              produced_report_def)
      next
        case False
        then have u2: "output_file processed_dir \<notin> unwritable w2" using assms(2) by simp
        from run_writes_report [OF x1 st False] run_writes_report [OF x2 st u2]
        show ?thesis by (auto simp: produced_report_def)
      qed
    qed
  qed
qed



text \<open>Running a second time, in the world the first run left, repeats the first outcome.\<close>

lemma run_twice:
  assumes "run_csv_pipeline raw_dir processed_dir w = (r1, w1)"
  shows "fst (run_csv_pipeline raw_dir processed_dir w1) = r1
       \<and> produced_report processed_dir (run_csv_pipeline raw_dir processed_dir w1)
           = produced_report processed_dir (r1, w1)"
proof -
  have "files w1 (input_file raw_dir) = files w (input_file raw_dir)
        \<and> unwritable w1 = unwritable w"
    using assms input_file_not_output_file [of raw_dir processed_dir]
    by (auto simp: run_csv_pipeline_def Let_def load_stats_report_def logger_info_def
             split: sum.splits prod.splits if_splits)
  then show ?thesis
    using run_depends_on_input_file [of w1 raw_dir w processed_dir] assms by simp
qed

end
